theory Spec2Isabelle
  imports Main
begin

section \<open>Control widgets used by ShellWidget\<close>

text \<open>
  A shallow embedding of \<^verbatim>\<open>spyder/plugins/ipythonconsole/widgets/control.py\<close>:
  the two classes \<^verbatim>\<open>ControlWidget\<close> and \<^verbatim>\<open>PageControlWidget\<close>.

  A widget is a record of the attributes the file assigns. Every method is a function
  from the widget to the widget it leaves behind together with the list, in program
  order, of the calls it makes out of the file (signals emitted, calls of the Qt base
  classes, of the application, of the desktop services and of the mixins). What the
  methods read from Qt and from the mixins (the hit test, the selection, the parent
  shell, the text before the cursor) is a record of queries handed to the method.
\<close>

subsection \<open>Python values\<close>

text \<open>
  The truth value Python gives an object that is \<^verbatim>\<open>None\<close> or a \<^verbatim>\<open>str\<close>:
  \<^verbatim>\<open>None\<close> and the empty string are false, every other string is true.
\<close>

fun truthy :: "string option \<Rightarrow> bool" where
  "truthy None = False"
| "truthy (Some s) = (s \<noteq> [])"

text \<open>
  \<^verbatim>\<open>str.isdigit\<close>: the string is not empty and each of its characters is a digit.
  A \<^typ>\<open>char\<close> is read as a code point below 256; the digits there are
  \<^verbatim>\<open>0\<close> to \<^verbatim>\<open>9\<close> and the superscripts U+00B2, U+00B3 and U+00B9.
\<close>

definition is_digit_char :: "char \<Rightarrow> bool" where
  "is_digit_char c =
     (let n = (of_char c :: nat)
      in (48 \<le> n \<and> n \<le> 57) \<or> n = 178 \<or> n = 179 \<or> n = 185)"

definition isdigit :: "string \<Rightarrow> bool" where
  "isdigit s = (s \<noteq> [] \<and> list_all is_digit_char s)"

subsection \<open>Values of the toolkit\<close>

type_synonym QPoint = "int \<times> int"

datatype CursorShape = ArrowCursor | PointingHandCursor

datatype QColor = QColor string

datatype QUrl = QUrl string

text \<open>\<^verbatim>\<open>Qt.Key_ParenLeft\<close> and \<^verbatim>\<open>Qt.Key_Slash\<close>, the key codes of Qt.\<close>

definition Key_ParenLeft :: int where
  "Key_ParenLeft = 40"

definition Key_Slash :: int where
  "Key_Slash = 47"

text \<open>
  A \<^verbatim>\<open>QTextFrameFormat\<close>, as far as the file sets it: a property that was never
  set is \<open>None\<close>.
\<close>

record QTextFrameFormat =
  height :: "int option"
  width :: "int option"
  background :: "QColor option"

definition QTextFrameFormat_new :: QTextFrameFormat where
  "QTextFrameFormat_new = \<lparr>height = None, width = None, background = None\<rparr>"

definition setHeight :: "int \<Rightarrow> QTextFrameFormat \<Rightarrow> QTextFrameFormat" where
  "setHeight h f = f\<lparr>height := Some h\<rparr>"

definition setWidth :: "int \<Rightarrow> QTextFrameFormat \<Rightarrow> QTextFrameFormat" where
  "setWidth w f = f\<lparr>width := Some w\<rparr>"

definition setBackground :: "QColor \<Rightarrow> QTextFrameFormat \<Rightarrow> QTextFrameFormat" where
  "setBackground c f = f\<lparr>background := Some c\<rparr>"

text \<open>
  The events. A mouse event carries the position \<^verbatim>\<open>event.pos()\<close>; focus and show
  events are only handed on. Key events stay a type parameter \<open>'k\<close>: the file reads them
  through \<^verbatim>\<open>restore_keyevent\<close> alone.
\<close>

record QMouseEvent =
  pos :: QPoint

record QFocusEvent =
  gotFocus :: bool

record QShowEvent =
  spontaneous :: bool

text \<open>
  \<^verbatim>\<open>restore_keyevent\<close> is imported from \<^verbatim>\<open>spyder.utils.qthelpers\<close>; it is a
  parameter of the key-press handlers. It returns the tuple
  \<^verbatim>\<open>(event, text, key, ctrl, shift)\<close>.
\<close>

type_synonym 'k restore_keyevent = "'k \<Rightarrow> 'k \<times> string \<times> int \<times> int \<times> int"

subsection \<open>Signals and calls out of the file\<close>

record help_data =
  name :: string
  ignore_unknown :: bool

text \<open>The signals the two classes declare, each with the value it is emitted with.\<close>

datatype Signal =
    visibility_changed bool
  | sig_go_to_error_requested string
  | focus_changed
  | sig_help_requested help_data
  | show_find_widget

text \<open>
  What a method does to the world outside the widget's own attributes.
  \<open>Super_m\<close> is the call \<^verbatim>\<open>super(C, self).m(event)\<close>, \<open>QTextEdit_keyPressEvent\<close>
  the call \<^verbatim>\<open>QTextEdit.keyPressEvent(self, event)\<close>; \<open>Show_object_info\<close> and
  \<open>Insert_text\<close> are the calls of the mixin methods \<^verbatim>\<open>show_object_info\<close> and
  \<^verbatim>\<open>insert_text\<close>; \<open>InsertFrame\<close> is \<^verbatim>\<open>insertFrame\<close> on the widget's text cursor.
\<close>

datatype 'k Action =
    Emit Signal
  | QTextEdit_keyPressEvent 'k
  | Super_focusInEvent QFocusEvent
  | Super_focusOutEvent QFocusEvent
  | Super_mouseMoveEvent QMouseEvent
  | Super_mouseReleaseEvent QMouseEvent
  | SetOverrideCursor CursorShape
  | RestoreOverrideCursor
  | OpenUrl QUrl
  | InsertFrame QTextFrameFormat
  | Show_object_info string
  | Insert_text string

subsection \<open>PageControlWidget\<close>

text \<open>
  The methods of this class carry the prefix \<open>page_\<close>: \<^verbatim>\<open>ControlWidget\<close> has
  methods of the same names.
\<close>

record PageControlWidget =
  found_results :: "int list"

text \<open>
  \<^verbatim>\<open>__init__\<close> runs the initialisers of the base classes, which leave the widget
  \<open>self\<close>, and then assigns \<^verbatim>\<open>found_results\<close>.
\<close>

definition PageControlWidget_init :: "PageControlWidget \<Rightarrow> PageControlWidget" where
  "PageControlWidget_init self = self\<lparr>found_results := []\<rparr>"

definition page_showEvent ::
  "PageControlWidget \<Rightarrow> QShowEvent \<Rightarrow> PageControlWidget \<times> 'k Action list" where
  "page_showEvent self event = (self, [Emit (visibility_changed True)])"

text \<open>\<open>isVisible\<close> is the answer of \<^verbatim>\<open>self.isVisible()\<close> when the event arrives.\<close>

definition page_keyPressEvent ::
  "'k restore_keyevent \<Rightarrow> bool \<Rightarrow> PageControlWidget \<Rightarrow> 'k \<Rightarrow>
     PageControlWidget \<times> 'k Action list" where
  "page_keyPressEvent restore_keyevent isVisible self event0 =
     (case restore_keyevent event0 of (event, text, key, ctrl, shift) \<Rightarrow>
        if key = Key_Slash \<and> isVisible
        then (self, [Emit show_find_widget])
        else (self, [QTextEdit_keyPressEvent event]))"

definition page_focusInEvent ::
  "PageControlWidget \<Rightarrow> QFocusEvent \<Rightarrow> PageControlWidget \<times> 'k Action list" where
  "page_focusInEvent self event = (self, [Emit focus_changed, Super_focusInEvent event])"

definition page_focusOutEvent ::
  "PageControlWidget \<Rightarrow> QFocusEvent \<Rightarrow> PageControlWidget \<times> 'k Action list" where
  "page_focusOutEvent self event = (self, [Emit focus_changed, Super_focusOutEvent event])"

subsection \<open>ControlWidget\<close>

record CallTipWidget =
  hide_timer_on :: bool

text \<open>
  The attributes the class assigns, and \<^verbatim>\<open>help_enabled\<close>, which it reads
  (\<^verbatim>\<open>GetHelpMixin\<close> owns it). \<^verbatim>\<open>current_prompt_pos\<close> is \<open>None\<close> until
  \<^verbatim>\<open>_key_paren_left\<close> assigns it.
\<close>

record ControlWidget =
  calltip_widget :: CallTipWidget
  found_results :: "int list"
  calltips :: bool
  anchor :: "string option"
  help_enabled :: bool
  current_prompt_pos :: "int option"

text \<open>
  The parent shell widget, as far as the file reads it: its attributes
  \<^verbatim>\<open>_reading\<close> and \<^verbatim>\<open>_prompt_pos\<close>. The class reads them from
  \<^verbatim>\<open>self.parent()\<close> and \<^verbatim>\<open>self.parentWidget()\<close> with no check: the
  widget lives inside a shell widget, which has both.
\<close>

record ShellWidget =
  reading :: bool
  prompt_pos :: int

text \<open>
  What a method of \<^verbatim>\<open>ControlWidget\<close> reads from Qt, from the mixins and from the
  theme at the moment it runs. The two mixin queries read the widget, which holds
  \<^verbatim>\<open>current_prompt_pos\<close>. \<^verbatim>\<open>anchorAt\<close> returns a string, empty when no link is
  under the point.
\<close>

record Toolkit =
  anchorAt :: "QPoint \<Rightarrow> string"
  has_selected_text :: bool
  parent :: ShellWidget
  parentWidget :: ShellWidget
  get_current_line_to_cursor :: "ControlWidget \<Rightarrow> string"
  get_last_obj :: "ControlWidget \<Rightarrow> string option"
  COLOR_TEXT_1 :: string

text \<open>
  \<^verbatim>\<open>__init__\<close>: the four initialisers of the base classes leave the widget \<open>self\<close>;
  then the four assignments of the class.
\<close>

definition ControlWidget_init :: "ControlWidget \<Rightarrow> ControlWidget" where
  "ControlWidget_init self =
     self\<lparr>calltip_widget := \<lparr>hide_timer_on = False\<rparr>,
          found_results := [],
          calltips := False,
          anchor := None\<rparr>"

definition insert_horizontal_ruler ::
  "Toolkit \<Rightarrow> ControlWidget \<Rightarrow> ControlWidget \<times> 'k Action list" where
  "insert_horizontal_ruler tk self =
     (let ruler = QTextFrameFormat_new;
          ruler = setHeight 1 ruler;
          ruler = setWidth 10000 ruler;
          ruler = setBackground (QColor (COLOR_TEXT_1 tk)) ruler
      in (self, [InsertFrame ruler]))"

text \<open>\<^verbatim>\<open>_key_paren_left\<close>, the action for the key \<^verbatim>\<open>(\<close>.\<close>

definition key_paren_left ::
  "Toolkit \<Rightarrow> ControlWidget \<Rightarrow> string \<Rightarrow> ControlWidget \<times> 'k Action list" where
  "key_paren_left tk self0 text =
     (let self = self0\<lparr>current_prompt_pos := Some (prompt_pos (parentWidget tk))\<rparr>;
          help =
            (if get_current_line_to_cursor tk self \<noteq> []
             then (case get_last_obj tk self of
                     None \<Rightarrow> []
                   | Some last_obj \<Rightarrow>
                       if last_obj \<noteq> [] \<and> \<not> isdigit last_obj
                       then [Show_object_info last_obj]
                       else [])
             else [])
      in (self, help @ [Insert_text text]))"

definition showEvent ::
  "ControlWidget \<Rightarrow> QShowEvent \<Rightarrow> ControlWidget \<times> 'k Action list" where
  "showEvent self event = (self, [Emit (visibility_changed True)])"

definition keyPressEvent ::
  "'k restore_keyevent \<Rightarrow> Toolkit \<Rightarrow> ControlWidget \<Rightarrow> 'k \<Rightarrow>
     ControlWidget \<times> 'k Action list" where
  "keyPressEvent restore_keyevent tk self event0 =
     (case restore_keyevent event0 of (event, text, key, ctrl, shift) \<Rightarrow>
        if key = Key_ParenLeft \<and> \<not> has_selected_text tk
           \<and> help_enabled self \<and> \<not> reading (parent tk)
        then key_paren_left tk self text
        else (self, [QTextEdit_keyPressEvent event]))"

definition focusInEvent ::
  "ControlWidget \<Rightarrow> QFocusEvent \<Rightarrow> ControlWidget \<times> 'k Action list" where
  "focusInEvent self event = (self, [Emit focus_changed, Super_focusInEvent event])"

definition focusOutEvent ::
  "ControlWidget \<Rightarrow> QFocusEvent \<Rightarrow> ControlWidget \<times> 'k Action list" where
  "focusOutEvent self event = (self, [Emit focus_changed, Super_focusOutEvent event])"

definition mouseMoveEvent ::
  "Toolkit \<Rightarrow> ControlWidget \<Rightarrow> QMouseEvent \<Rightarrow> ControlWidget \<times> 'k Action list" where
  "mouseMoveEvent tk self0 event =
     (let self = self0\<lparr>anchor := Some (anchorAt tk (pos event))\<rparr>
      in (self,
          (if truthy (anchor self)
           then [SetOverrideCursor PointingHandCursor]
           else [RestoreOverrideCursor])
          @ [Super_mouseMoveEvent event]))"

text \<open>
  \<^verbatim>\<open>if self.anchor\<close> holds when \<^verbatim>\<open>anchor\<close> is a string that is not empty; that
  string is the one \<^verbatim>\<open>QUrl\<close> gets.
\<close>

definition mouseReleaseEvent ::
  "ControlWidget \<Rightarrow> QMouseEvent \<Rightarrow> ControlWidget \<times> 'k Action list" where
  "mouseReleaseEvent self event =
     (case anchor self of
        Some url \<Rightarrow>
          if url \<noteq> []
          then (self\<lparr>anchor := None\<rparr>,
                [OpenUrl (QUrl url), SetOverrideCursor ArrowCursor])
          else (self, [Super_mouseReleaseEvent event])
      | None \<Rightarrow> (self, [Super_mouseReleaseEvent event]))"

subsection \<open>Reading the calls a method makes\<close>

text \<open>
  A call that hands the event to the next implementation: the \<^verbatim>\<open>super\<close> calls and
  \<^verbatim>\<open>QTextEdit.keyPressEvent\<close>.
\<close>

fun delegates :: "'k Action \<Rightarrow> bool" where
  "delegates (QTextEdit_keyPressEvent e) = True"
| "delegates (Super_focusInEvent e) = True"
| "delegates (Super_focusOutEvent e) = True"
| "delegates (Super_mouseMoveEvent e) = True"
| "delegates (Super_mouseReleaseEvent e) = True"
| "delegates a = False"

fun emits :: "'k Action \<Rightarrow> bool" where
  "emits (Emit s) = True"
| "emits a = False"

fun opens_url :: "'k Action \<Rightarrow> bool" where
  "opens_url (OpenUrl u) = True"
| "opens_url a = False"

fun requests_help :: "'k Action \<Rightarrow> bool" where
  "requests_help (Show_object_info obj) = True"
| "requests_help a = False"

fun inserts_text :: "'k Action \<Rightarrow> bool" where
  "inserts_text (Insert_text t) = True"
| "inserts_text a = False"

text \<open>
  Modelled from the spec: \<^verbatim>\<open>show_object_info\<close>, a method of \<^verbatim>\<open>GetHelpMixin\<close>
  that is not in the file, emits \<^verbatim>\<open>sig_help_requested\<close>. The spec lists
  help-requested among the signals emitted; the class declares the signal as the one
  that is emitted to request help on an object's name and never emits it itself, and
  the call \<^verbatim>\<open>show_object_info(last_obj)\<close> is where it asks for help. The one path
  of the file to that call has \<^verbatim>\<open>help_enabled\<close> true. So a list of calls delegates
  or emits when one of them hands the event on, emits a signal, or is that call.
\<close>

definition delegates_or_emits :: "'k Action list \<Rightarrow> bool" where
  "delegates_or_emits out =
     list_ex (\<lambda>a. delegates a \<or> emits a \<or> requests_help a) out"

text \<open>
  The condition under which \<^verbatim>\<open>_key_paren_left\<close> calls
  \<^verbatim>\<open>show_object_info\<close>: after \<^verbatim>\<open>current_prompt_pos\<close> is assigned, the line up
  to the cursor is not empty and the last object is a string that is not empty and
  not made of digits only.
\<close>

definition help_wanted :: "Toolkit \<Rightarrow> ControlWidget \<Rightarrow> bool" where
  "help_wanted tk self0 =
     (let self = self0\<lparr>current_prompt_pos := Some (prompt_pos (parentWidget tk))\<rparr>
      in get_current_line_to_cursor tk self \<noteq> []
         \<and> (case get_last_obj tk self of
                None \<Rightarrow> False
              | Some last_obj \<Rightarrow> last_obj \<noteq> [] \<and> \<not> isdigit last_obj))"

subsection \<open>Sequences of calls on a ControlWidget\<close>

text \<open>
  The event loop calls the methods of a widget one after the other, each in the
  situation (the \<open>Toolkit\<close>) of its moment. \<open>deliver\<close> runs such a sequence from a
  widget and collects what the methods do.
\<close>

datatype 'k Call =
    Call_insert_horizontal_ruler
  | Call_showEvent QShowEvent
  | Call_keyPressEvent 'k
  | Call_focusInEvent QFocusEvent
  | Call_focusOutEvent QFocusEvent
  | Call_mouseMoveEvent QMouseEvent
  | Call_mouseReleaseEvent QMouseEvent

fun call ::
  "'k restore_keyevent \<Rightarrow> Toolkit \<Rightarrow> ControlWidget \<Rightarrow> 'k Call \<Rightarrow>
     ControlWidget \<times> 'k Action list" where
  "call rk tk self Call_insert_horizontal_ruler = insert_horizontal_ruler tk self"
| "call rk tk self (Call_showEvent e) = showEvent self e"
| "call rk tk self (Call_keyPressEvent e) = keyPressEvent rk tk self e"
| "call rk tk self (Call_focusInEvent e) = focusInEvent self e"
| "call rk tk self (Call_focusOutEvent e) = focusOutEvent self e"
| "call rk tk self (Call_mouseMoveEvent e) = mouseMoveEvent tk self e"
| "call rk tk self (Call_mouseReleaseEvent e) = mouseReleaseEvent self e"

fun is_mouseMoveEvent :: "'k Call \<Rightarrow> bool" where
  "is_mouseMoveEvent (Call_mouseMoveEvent e) = True"
| "is_mouseMoveEvent c = False"

fun deliver ::
  "'k restore_keyevent \<Rightarrow> ControlWidget \<Rightarrow> (Toolkit \<times> 'k Call) list \<Rightarrow>
     ControlWidget \<times> 'k Action list" where
  "deliver rk self [] = (self, [])"
| "deliver rk self ((tk, c) # cs) =
     (case call rk tk self c of (self', out) \<Rightarrow>
        (case deliver rk self' cs of (self'', out') \<Rightarrow> (self'', out @ out')))"

subsection \<open>Concrete inputs\<close>

text \<open>
  A shell that is not reading, a console whose text before the cursor is
  \<^verbatim>\<open>np.array\<close> and which shows a link at the point (3, 4), the same console
  with nothing before the cursor, a widget with help enabled, and key events 0, 1 and
  2 for the keys \<^verbatim>\<open>(\<close>, \<^verbatim>\<open>/\<close> and \<^verbatim>\<open>a\<close>.
\<close>

definition shell_example :: ShellWidget where
  "shell_example = \<lparr>reading = False, prompt_pos = 7\<rparr>"

definition toolkit_example :: Toolkit where
  "toolkit_example =
     \<lparr>anchorAt = (\<lambda>p. if p = (3, 4) then ''https://www.spyder-ide.org'' else []),
      has_selected_text = False,
      parent = shell_example,
      parentWidget = shell_example,
      get_current_line_to_cursor = (\<lambda>w. ''np.array''),
      get_last_obj = (\<lambda>w. Some ''np.array''),
      COLOR_TEXT_1 = ''#FAFAFA''\<rparr>"

definition widget_example :: ControlWidget where
  "widget_example =
     \<lparr>calltip_widget = \<lparr>hide_timer_on = False\<rparr>,
      found_results = [],
      calltips = False,
      anchor = None,
      help_enabled = True,
      current_prompt_pos = None\<rparr>"

definition widget_on_link :: ControlWidget where
  "widget_on_link = widget_example\<lparr>anchor := Some ''https://www.spyder-ide.org''\<rparr>"

definition toolkit_empty_line :: Toolkit where
  "toolkit_empty_line =
     toolkit_example\<lparr>get_current_line_to_cursor := (\<lambda>w. []),
                       get_last_obj := (\<lambda>w. None)\<rparr>"

definition restore_example :: "nat restore_keyevent" where
  "restore_example e =
     (if e = 0 then (e, ''('', Key_ParenLeft, 0, 0)
      else if e = 1 then (e, ''/'', Key_Slash, 0, 0)
      else (e, ''a'', 65, 0, 0))"

definition calls_example :: "(Toolkit \<times> nat Call) list" where
  "calls_example =
     [(toolkit_example, Call_focusInEvent \<lparr>gotFocus = True\<rparr>),
      (toolkit_example, Call_keyPressEvent 0),
      (toolkit_example, Call_mouseReleaseEvent \<lparr>pos = (3, 4)\<rparr>)]"

subsection \<open>Helper facts\<close>

lemma call_keeps_no_anchor:
  assumes "anchor self = None" and "\<not> is_mouseMoveEvent c"
  shows "anchor (fst (call rk tk self c)) = None
         \<and> \<not> list_ex opens_url (snd (call rk tk self c))"
  using assms
  by (cases c)
     (auto simp: insert_horizontal_ruler_def showEvent_def keyPressEvent_def
        key_paren_left_def focusInEvent_def focusOutEvent_def mouseReleaseEvent_def
        Let_def split: option.splits prod.splits)

lemma deliver_keeps_no_anchor:
  assumes "anchor self = None" and "list_all (\<lambda>(tk, c). \<not> is_mouseMoveEvent c) cs"
  shows "anchor (fst (deliver rk self cs)) = None
         \<and> \<not> list_ex opens_url (snd (deliver rk self cs))"
  using assms
proof (induction cs arbitrary: self)
  case Nil
  then show ?case by simp
next
  case (Cons tc cs)
  obtain tk c where tc: "tc = (tk, c)" by (cases tc)
  obtain self' out where step: "call rk tk self c = (self', out)"
    by (cases "call rk tk self c")
  obtain self'' out' where rest: "deliver rk self' cs = (self'', out')"
    by (cases "deliver rk self' cs")
  from Cons.prems tc have nm: "\<not> is_mouseMoveEvent c"
    and tl: "list_all (\<lambda>(tk, c). \<not> is_mouseMoveEvent c) cs"
    by simp_all
  from call_keeps_no_anchor [OF Cons.prems(1) nm, of rk tk] step
  have s1: "anchor self' = None" and o1: "\<not> list_ex opens_url out"
    by simp_all
  from Cons.IH [OF s1 tl] rest
  have s2: "anchor self'' = None" and o2: "\<not> list_ex opens_url out'"
    by simp_all
  from tc step rest s2 o1 o2 show ?case
    by (auto simp: list_ex_iff)
qed

lemma isdigit_np_array: "\<not> isdigit ''np.array''"
  by (simp add: isdigit_def is_digit_char_def)

subsection \<open>Mouse events on a ControlWidget\<close>

text \<open>
  Claim C1. Every mouse-move event overwrites \<^verbatim>\<open>anchor\<close> with the result of the
  hit test \<^verbatim>\<open>anchorAt(event.pos())\<close>; when that string is not empty the override
  cursor is set to the pointing hand, otherwise the override cursor is restored (and
  the event goes on to \<^verbatim>\<open>super\<close> in both cases). A mouse release that opens a URL
  leaves \<^verbatim>\<open>anchor\<close> at \<^verbatim>\<open>None\<close>.
\<close>

theorem mouseMoveEvent_tracks_anchor:
  "(let (self', out) = (mouseMoveEvent tk self event :: ControlWidget \<times> 'k Action list)
    in anchor self' = Some (anchorAt tk (pos event))
       \<and> out = (if anchorAt tk (pos event) \<noteq> []
                 then [SetOverrideCursor PointingHandCursor, Super_mouseMoveEvent event]
                 else [RestoreOverrideCursor, Super_mouseMoveEvent event]))
   \<and> (let (self', out) = (mouseReleaseEvent self event :: ControlWidget \<times> 'k Action list)
      in list_ex opens_url out \<longrightarrow> anchor self' = None)"
  by (auto simp: mouseMoveEvent_def mouseReleaseEvent_def Let_def split: option.splits)

theorem mouseMoveEvent_tracks_anchor_witness:
  "mouseMoveEvent toolkit_example widget_on_link \<lparr>pos = (3, 4)\<rparr>
     = (widget_on_link,
        [SetOverrideCursor PointingHandCursor, Super_mouseMoveEvent \<lparr>pos = (3, 4)\<rparr>
           :: nat Action])
   \<and> list_ex opens_url
        (snd (mouseReleaseEvent widget_on_link \<lparr>pos = (3, 4)\<rparr>
                :: ControlWidget \<times> nat Action list))
   \<and> anchor (fst (mouseReleaseEvent widget_on_link \<lparr>pos = (3, 4)\<rparr>
                      :: ControlWidget \<times> nat Action list)) = None"
  using mouseMoveEvent_tracks_anchor
          [where 'k = nat, of toolkit_example widget_on_link "\<lparr>pos = (3, 4)\<rparr>"]
  by (simp add: mouseMoveEvent_def mouseReleaseEvent_def toolkit_example_def
        widget_on_link_def widget_example_def)

text \<open>
  Claim C2. On a mouse release, when \<^verbatim>\<open>anchor\<close> is set (a non-empty string) the
  anchor's URL is opened through the desktop services and the event is not handed on;
  otherwise (\<^verbatim>\<open>anchor\<close> is \<^verbatim>\<open>None\<close> or empty) the event is handed to
  \<^verbatim>\<open>super\<close>, the widget is left as it was and no URL is opened. Exactly one of the
  two happens.
\<close>

theorem mouseReleaseEvent_opens_or_forwards:
  "(let out = snd (mouseReleaseEvent self event :: ControlWidget \<times> 'k Action list)
    in (truthy (anchor self) \<longrightarrow>
          (\<exists>url. anchor self = Some url
             \<and> out = [OpenUrl (QUrl url), SetOverrideCursor ArrowCursor]))
       \<and> (\<not> truthy (anchor self) \<longrightarrow>
            out = [Super_mouseReleaseEvent event]
            \<and> fst (mouseReleaseEvent self event :: ControlWidget \<times> 'k Action list) = self)
       \<and> list_ex opens_url out = truthy (anchor self)
       \<and> list_ex delegates out = (\<not> truthy (anchor self)))"
  by (cases "anchor self") (auto simp: mouseReleaseEvent_def Let_def)

theorem mouseReleaseEvent_opens_or_forwards_witness:
  "truthy (anchor widget_on_link)
   \<and> snd (mouseReleaseEvent widget_on_link \<lparr>pos = (3, 4)\<rparr>
            :: ControlWidget \<times> nat Action list)
       = [OpenUrl (QUrl ''https://www.spyder-ide.org''), SetOverrideCursor ArrowCursor]"
  using mouseReleaseEvent_opens_or_forwards
          [where 'k = nat, of widget_on_link "\<lparr>pos = (3, 4)\<rparr>"]
  by (simp add: widget_on_link_def widget_example_def Let_def)

subsection \<open>Key presses on a ControlWidget\<close>

text \<open>
  Claim C3. Let \<^verbatim>\<open>restore_keyevent\<close> return \<^verbatim>\<open>(event, text, key, ctrl, shift)\<close>.
  The helper \<^verbatim>\<open>_key_paren_left\<close> runs exactly when the key is
  \<^verbatim>\<open>Key_ParenLeft\<close>, no text is selected, help is enabled and the parent is not
  reading: then the key press does what the helper does (it inserts the text and hands
  nothing to \<^verbatim>\<open>QTextEdit\<close>). In every other case the returned event, as it is, is
  handed to \<^verbatim>\<open>QTextEdit.keyPressEvent\<close>, the widget is left as it was and nothing is
  inserted.
\<close>

theorem keyPressEvent_help_or_forward:
  assumes "restore_keyevent event0 = (event, text, key, ctrl, shift)"
  shows "(if key = Key_ParenLeft \<and> \<not> has_selected_text tk
             \<and> help_enabled self \<and> \<not> reading (parent tk)
          then keyPressEvent restore_keyevent tk self event0 = key_paren_left tk self text
             \<and> list_ex inserts_text (snd (keyPressEvent restore_keyevent tk self event0))
             \<and> \<not> list_ex delegates (snd (keyPressEvent restore_keyevent tk self event0))
          else keyPressEvent restore_keyevent tk self event0
                 = (self, [QTextEdit_keyPressEvent event])
             \<and> \<not> list_ex inserts_text (snd (keyPressEvent restore_keyevent tk self event0)))"
  using assms
  by (auto simp: keyPressEvent_def key_paren_left_def Let_def split: option.splits)

theorem keyPressEvent_help_or_forward_witness:
  "restore_example 0 = (0, ''('', Key_ParenLeft, 0, 0)
   \<and> keyPressEvent restore_example toolkit_example widget_example 0
       = (widget_example\<lparr>current_prompt_pos := Some 7\<rparr>,
          [Show_object_info ''np.array'', Insert_text ''(''])
   \<and> restore_example 2 = (2, ''a'', 65, 0, 0)
   \<and> keyPressEvent restore_example toolkit_example widget_example 2
       = (widget_example, [QTextEdit_keyPressEvent 2])"
proof -
  have paren: "restore_example 0 = (0, ''('', Key_ParenLeft, 0, 0)"
    and other: "restore_example 2 = (2, ''a'', 65, 0, 0)"
    by (simp_all add: restore_example_def)
  have situation: "\<not> has_selected_text toolkit_example"
    "help_enabled widget_example" "\<not> reading (parent toolkit_example)"
    by (simp_all add: toolkit_example_def shell_example_def widget_example_def)
  have helper: "key_paren_left toolkit_example widget_example ''(''
      = (widget_example\<lparr>current_prompt_pos := Some 7\<rparr>,
         [Show_object_info ''np.array'', Insert_text ''('' :: nat Action])"
    by (simp add: key_paren_left_def toolkit_example_def shell_example_def
          isdigit_np_array)
  have "keyPressEvent restore_example toolkit_example widget_example 0
          = key_paren_left toolkit_example widget_example ''(''"
    using keyPressEvent_help_or_forward
            [where restore_keyevent = restore_example and ?event0.0 = 0
               and tk = toolkit_example and self = widget_example, OF paren]
    by (simp add: situation)
  moreover
  have "keyPressEvent restore_example toolkit_example widget_example 2
          = (widget_example, [QTextEdit_keyPressEvent 2])"
    using keyPressEvent_help_or_forward
            [where restore_keyevent = restore_example and ?event0.0 = 2
               and tk = toolkit_example and self = widget_example, OF other]
    by (simp add: Key_ParenLeft_def)
  ultimately show ?thesis
    by (simp add: paren other helper)
qed

text \<open>
  Claim C10. When \<^verbatim>\<open>_key_paren_left\<close> runs, it calls \<^verbatim>\<open>show_object_info\<close>
  exactly when the line up to the cursor is not empty and the last object on it is
  there, is not empty and is not made of digits only; the request is for that object.
  In every case the last thing it does is to insert the text it was given.
\<close>

theorem key_paren_left_help_then_insert:
  "(let self' = self\<lparr>current_prompt_pos := Some (prompt_pos (parentWidget tk))\<rparr>;
        out = snd (key_paren_left tk self text :: ControlWidget \<times> 'k Action list)
    in (list_ex requests_help out
          = (get_current_line_to_cursor tk self' \<noteq> []
             \<and> (\<exists>last_obj. get_last_obj tk self' = Some last_obj
                    \<and> last_obj \<noteq> [] \<and> \<not> isdigit last_obj)))
       \<and> (\<exists>help. out = help @ [Insert_text text]
             \<and> (help = [] \<or> (\<exists>last_obj. get_last_obj tk self' = Some last_obj
                                  \<and> help = [Show_object_info last_obj]))))"
  by (auto simp: key_paren_left_def Let_def split: option.splits)

subsection \<open>Key presses on a PageControlWidget\<close>

text \<open>
  Claim C5. Let \<^verbatim>\<open>restore_keyevent\<close> return \<^verbatim>\<open>(event, text, key, ctrl, shift)\<close>.
  \<^verbatim>\<open>show_find_widget\<close> is emitted exactly when the key is \<^verbatim>\<open>Key_Slash\<close> and the
  widget is visible, and then nothing else happens: the event is not handed on. In
  every other case the returned event, as it is, is handed to
  \<^verbatim>\<open>QTextEdit.keyPressEvent\<close> and no signal is emitted.
\<close>

theorem page_keyPressEvent_find_or_forward:
  assumes "restore_keyevent event0 = (event, text, key, ctrl, shift)"
  shows "(let out = snd (page_keyPressEvent restore_keyevent isVisible self event0)
          in list_ex emits out = (key = Key_Slash \<and> isVisible)
             \<and> list_ex delegates out = (\<not> (key = Key_Slash \<and> isVisible))
             \<and> out = (if key = Key_Slash \<and> isVisible
                       then [Emit show_find_widget]
                       else [QTextEdit_keyPressEvent event]))"
  using assms by (auto simp: page_keyPressEvent_def)

theorem page_keyPressEvent_find_or_forward_witness:
  "restore_example 1 = (1, ''/'', Key_Slash, 0, 0)
   \<and> snd (page_keyPressEvent restore_example True \<lparr>PageControlWidget.found_results = []\<rparr> 1)
       = [Emit show_find_widget]
   \<and> snd (page_keyPressEvent restore_example False \<lparr>PageControlWidget.found_results = []\<rparr> 1)
       = [QTextEdit_keyPressEvent 1]"
proof -
  have slash: "restore_example 1 = (1, ''/'', Key_Slash, 0, 0)"
    by (simp add: restore_example_def)
  from page_keyPressEvent_find_or_forward
         [where restore_keyevent = restore_example and ?event0.0 = 1
            and isVisible = True
            and self = "\<lparr>PageControlWidget.found_results = []\<rparr>", OF slash]
       page_keyPressEvent_find_or_forward
         [where restore_keyevent = restore_example and ?event0.0 = 1
            and isVisible = False
            and self = "\<lparr>PageControlWidget.found_results = []\<rparr>", OF slash]
  show ?thesis
    using slash by (simp add: Let_def)
qed

subsection \<open>Show and focus events\<close>

text \<open>
  Claim C6. For every show event on a ControlWidget or a PageControlWidget, the widget
  emits \<^verbatim>\<open>visibility_changed\<close> with the value True (and does nothing else).
\<close>

theorem showEvent_emits_visibility_changed:
  "snd (showEvent self event :: ControlWidget \<times> 'k Action list)
     = [Emit (visibility_changed True)]
   \<and> snd (page_showEvent pself event :: PageControlWidget \<times> 'k Action list)
       = [Emit (visibility_changed True)]"
  by (simp add: showEvent_def page_showEvent_def)

text \<open>
  Claim C7. For every focus-in and every focus-out event on a ControlWidget or a
  PageControlWidget, the widget emits \<^verbatim>\<open>focus_changed\<close> and then hands the event
  to the base implementation.
\<close>

theorem focus_events_emit_then_forward:
  "snd (focusInEvent self event :: ControlWidget \<times> 'k Action list)
     = [Emit focus_changed, Super_focusInEvent event]
   \<and> snd (focusOutEvent self event :: ControlWidget \<times> 'k Action list)
       = [Emit focus_changed, Super_focusOutEvent event]
   \<and> snd (page_focusInEvent pself event :: PageControlWidget \<times> 'k Action list)
       = [Emit focus_changed, Super_focusInEvent event]
   \<and> snd (page_focusOutEvent pself event :: PageControlWidget \<times> 'k Action list)
       = [Emit focus_changed, Super_focusOutEvent event]"
  by (simp add: focusInEvent_def focusOutEvent_def page_focusInEvent_def
        page_focusOutEvent_def)

subsection \<open>The horizontal ruler\<close>

text \<open>
  Claim C8. \<^verbatim>\<open>insert_horizontal_ruler\<close> inserts, through the widget's text cursor,
  one frame of height 1 and width 10000 whose background is the colour
  \<^verbatim>\<open>QStylePalette.COLOR_TEXT_1\<close>, and leaves every attribute of the widget as it was.
\<close>

theorem insert_horizontal_ruler_frame:
  "(insert_horizontal_ruler tk self :: ControlWidget \<times> 'k Action list) =
     (self, [InsertFrame \<lparr>height = Some 1, width = Some 10000,
                          background = Some (QColor (COLOR_TEXT_1 tk))\<rparr>])"
  by (simp add: insert_horizontal_ruler_def QTextFrameFormat_new_def setHeight_def
        setWidth_def setBackground_def)

subsection \<open>A new ControlWidget\<close>

text \<open>
  Claim C9. After \<^verbatim>\<open>__init__\<close>, \<^verbatim>\<open>anchor\<close> is \<^verbatim>\<open>None\<close>, \<^verbatim>\<open>found_results\<close>
  is the empty list and \<^verbatim>\<open>calltips\<close> is False. So, after any sequence of calls on
  the new widget with no mouse move among them, a mouse release is handed to
  \<^verbatim>\<open>super\<close> and leaves the widget as it was, and no call of the sequence has opened
  a URL.
\<close>

theorem new_widget_release_forwards:
  fixes rk :: "'k restore_keyevent"
  shows "anchor (ControlWidget_init self0) = None
   \<and> found_results (ControlWidget_init self0) = []
   \<and> calltips (ControlWidget_init self0) = False
   \<and> (list_all (\<lambda>(tk, c). \<not> is_mouseMoveEvent c) cs \<longrightarrow>
        (let self = fst (deliver rk (ControlWidget_init self0) cs)
         in mouseReleaseEvent self event
              = (self, [Super_mouseReleaseEvent event :: 'k Action]))
        \<and> \<not> list_ex opens_url (snd (deliver rk (ControlWidget_init self0) cs)))"
proof -
  have init: "anchor (ControlWidget_init self0) = None"
    by (simp add: ControlWidget_init_def)
  have "anchor (fst (deliver rk (ControlWidget_init self0) cs)) = None
        \<and> \<not> list_ex opens_url (snd (deliver rk (ControlWidget_init self0) cs))"
    if "list_all (\<lambda>(tk, c). \<not> is_mouseMoveEvent c) cs"
    using deliver_keeps_no_anchor [OF init that] .
  then show ?thesis
    by (auto simp: ControlWidget_init_def mouseReleaseEvent_def Let_def)
qed

theorem new_widget_release_forwards_witness:
  "list_all (\<lambda>(tk, c). \<not> is_mouseMoveEvent c) calls_example
   \<and> deliver restore_example (ControlWidget_init widget_on_link) calls_example
       = (widget_example\<lparr>current_prompt_pos := Some 7\<rparr>,
          [Emit focus_changed, Super_focusInEvent \<lparr>gotFocus = True\<rparr>,
           Show_object_info ''np.array'', Insert_text ''('',
           Super_mouseReleaseEvent \<lparr>pos = (3, 4)\<rparr>])
   \<and> mouseReleaseEvent (widget_example\<lparr>current_prompt_pos := Some 7\<rparr>) \<lparr>pos = (3, 4)\<rparr>
       = (widget_example\<lparr>current_prompt_pos := Some 7\<rparr>,
          [Super_mouseReleaseEvent \<lparr>pos = (3, 4)\<rparr> :: nat Action])"
proof -
  have no_move: "list_all (\<lambda>(tk, c). \<not> is_mouseMoveEvent c) calls_example"
    by (simp add: calls_example_def)
  have run: "deliver restore_example (ControlWidget_init widget_on_link) calls_example
       = (widget_example\<lparr>current_prompt_pos := Some 7\<rparr>,
          [Emit focus_changed, Super_focusInEvent \<lparr>gotFocus = True\<rparr>,
           Show_object_info ''np.array'', Insert_text ''('',
           Super_mouseReleaseEvent \<lparr>pos = (3, 4)\<rparr>])"
    by (simp add: calls_example_def ControlWidget_init_def widget_on_link_def
          widget_example_def focusInEvent_def keyPressEvent_def restore_example_def
          key_paren_left_def toolkit_example_def shell_example_def isdigit_np_array
          mouseReleaseEvent_def)
  from new_widget_release_forwards
         [of widget_on_link calls_example restore_example "\<lparr>pos = (3, 4)\<rparr>"]
  show ?thesis
    by (simp add: no_move run Let_def)
qed

subsection \<open>Delegating or emitting\<close>

text \<open>
  Claim C4, as stated: every overridden callback, on every call, hands the event to
  the base implementation or emits a signal. It fails for a mouse release on a
  ControlWidget whose \<^verbatim>\<open>anchor\<close> is set: the URL is opened and the cursor set, the
  event is not handed on and no signal is emitted.
\<close>

theorem mouseReleaseEvent_on_link_neither:
  "\<not> delegates_or_emits
       (snd (mouseReleaseEvent widget_on_link \<lparr>pos = (3, 4)\<rparr>
               :: ControlWidget \<times> nat Action list))"
  by (simp add: delegates_or_emits_def mouseReleaseEvent_def widget_on_link_def
        widget_example_def)

text \<open>
  Claim C4, amended. Every overridden callback hands the event to the base
  implementation or emits a signal, except on two paths of ControlWidget, where it
  does neither: \<^verbatim>\<open>mouseReleaseEvent\<close> when \<^verbatim>\<open>anchor\<close> is set (it opens the
  URL), and \<^verbatim>\<open>keyPressEvent\<close> when it runs \<^verbatim>\<open>_key_paren_left\<close> and no help
  is asked for (it only inserts the text). When \<^verbatim>\<open>_key_paren_left\<close> asks for
  help, the signal is the one \<^verbatim>\<open>show_object_info\<close> emits.
\<close>

theorem callbacks_delegate_or_emit:
  fixes rk :: "'k restore_keyevent"
  shows "delegates_or_emits (snd (showEvent self sev :: ControlWidget \<times> 'k Action list))
   \<and> delegates_or_emits (snd (focusInEvent self fev :: ControlWidget \<times> 'k Action list))
   \<and> delegates_or_emits (snd (focusOutEvent self fev :: ControlWidget \<times> 'k Action list))
   \<and> delegates_or_emits (snd (mouseMoveEvent tk self mev :: ControlWidget \<times> 'k Action list))
   \<and> delegates_or_emits
        (snd (page_showEvent pself sev :: PageControlWidget \<times> 'k Action list))
   \<and> delegates_or_emits (snd (page_keyPressEvent rk isVisible pself kev))
   \<and> delegates_or_emits
        (snd (page_focusInEvent pself fev :: PageControlWidget \<times> 'k Action list))
   \<and> delegates_or_emits
        (snd (page_focusOutEvent pself fev :: PageControlWidget \<times> 'k Action list))
   \<and> delegates_or_emits (snd (mouseReleaseEvent self mev :: ControlWidget \<times> 'k Action list))
        = (\<not> truthy (anchor self))
   \<and> delegates_or_emits (snd (keyPressEvent rk tk self kev))
        = (case rk kev of (event, text, key, ctrl, shift) \<Rightarrow>
             \<not> (key = Key_ParenLeft \<and> \<not> has_selected_text tk
                  \<and> help_enabled self \<and> \<not> reading (parent tk)
                  \<and> \<not> help_wanted tk self))"
proof -
  have others:
    "delegates_or_emits (snd (showEvent self sev :: ControlWidget \<times> 'k Action list))"
    "delegates_or_emits (snd (focusInEvent self fev :: ControlWidget \<times> 'k Action list))"
    "delegates_or_emits (snd (focusOutEvent self fev :: ControlWidget \<times> 'k Action list))"
    "delegates_or_emits (snd (mouseMoveEvent tk self mev :: ControlWidget \<times> 'k Action list))"
    "delegates_or_emits
       (snd (page_showEvent pself sev :: PageControlWidget \<times> 'k Action list))"
    "delegates_or_emits
       (snd (page_focusInEvent pself fev :: PageControlWidget \<times> 'k Action list))"
    "delegates_or_emits
       (snd (page_focusOutEvent pself fev :: PageControlWidget \<times> 'k Action list))"
    by (simp_all add: delegates_or_emits_def showEvent_def focusInEvent_def
          focusOutEvent_def mouseMoveEvent_def page_showEvent_def page_focusInEvent_def
          page_focusOutEvent_def Let_def)
  have page_key: "delegates_or_emits (snd (page_keyPressEvent rk isVisible pself kev))"
    by (cases "rk kev") (simp add: delegates_or_emits_def page_keyPressEvent_def)
  have release:
    "delegates_or_emits (snd (mouseReleaseEvent self mev :: ControlWidget \<times> 'k Action list))
       = (\<not> truthy (anchor self))"
    by (cases "anchor self") (simp_all add: delegates_or_emits_def mouseReleaseEvent_def)
  have helper: "delegates_or_emits (snd (key_paren_left tk self t)
                  :: 'k Action list) = help_wanted tk self" for t
    by (auto simp: delegates_or_emits_def key_paren_left_def help_wanted_def Let_def
          split: option.splits)
  have key:
    "delegates_or_emits (snd (keyPressEvent rk tk self kev))
       = (case rk kev of (event, text, key, ctrl, shift) \<Rightarrow>
            \<not> (key = Key_ParenLeft \<and> \<not> has_selected_text tk
                 \<and> help_enabled self \<and> \<not> reading (parent tk)
                 \<and> \<not> help_wanted tk self))"
  proof (cases "rk kev")
    case (fields event t key ctrl shift)
    show ?thesis
    proof (cases "key = Key_ParenLeft \<and> \<not> has_selected_text tk
                    \<and> help_enabled self \<and> \<not> reading (parent tk)")
      case True
      with fields have "keyPressEvent rk tk self kev = key_paren_left tk self t"
        by (simp add: keyPressEvent_def)
      with True fields helper [of t] show ?thesis by simp
    next
      case False
      with fields have "keyPressEvent rk tk self kev = (self, [QTextEdit_keyPressEvent event])"
        by (auto simp: keyPressEvent_def)
      with False fields show ?thesis by (auto simp: delegates_or_emits_def)
    qed
  qed
  from others page_key release key show ?thesis by simp
qed

theorem callbacks_delegate_or_emit_witness:
  "delegates_or_emits
     (snd (keyPressEvent restore_example toolkit_example widget_example 2))
   \<and> delegates_or_emits
       (snd (keyPressEvent restore_example toolkit_example widget_example 0))
   \<and> \<not> delegates_or_emits
         (snd (keyPressEvent restore_example toolkit_empty_line widget_example 0))
   \<and> snd (keyPressEvent restore_example toolkit_empty_line widget_example 0)
       = [Insert_text ''('']"
proof -
  have wanted: "help_wanted toolkit_example widget_example"
    by (simp add: help_wanted_def toolkit_example_def isdigit_np_array)
  have unwanted: "\<not> help_wanted toolkit_empty_line widget_example"
    by (simp add: help_wanted_def toolkit_empty_line_def toolkit_example_def)
  have situation: "\<not> has_selected_text toolkit_example"
    "\<not> reading (parent toolkit_example)"
    "\<not> has_selected_text toolkit_empty_line"
    "\<not> reading (parent toolkit_empty_line)"
    "help_enabled widget_example"
    by (simp_all add: toolkit_empty_line_def toolkit_example_def shell_example_def
          widget_example_def)
  have trace: "snd (keyPressEvent restore_example toolkit_empty_line widget_example 0)
                 = [Insert_text ''('']"
    by (simp add: keyPressEvent_def restore_example_def key_paren_left_def
          toolkit_empty_line_def toolkit_example_def shell_example_def
          widget_example_def)
  have other_key: "delegates_or_emits
      (snd (keyPressEvent restore_example toolkit_example widget_example 2))"
    using callbacks_delegate_or_emit
            [where rk = restore_example and tk = toolkit_example and self = widget_example
              and kev = 2 and sev = "\<lparr>spontaneous = False\<rparr>"
              and fev = "\<lparr>gotFocus = True\<rparr>" and mev = "\<lparr>pos = (3, 4)\<rparr>"
              and pself = "\<lparr>PageControlWidget.found_results = []\<rparr>"
              and isVisible = True]
    by (simp add: restore_example_def Key_ParenLeft_def)
  have help_key: "delegates_or_emits
      (snd (keyPressEvent restore_example toolkit_example widget_example 0))"
    using callbacks_delegate_or_emit
            [where rk = restore_example and tk = toolkit_example and self = widget_example
              and kev = 0 and sev = "\<lparr>spontaneous = False\<rparr>"
              and fev = "\<lparr>gotFocus = True\<rparr>" and mev = "\<lparr>pos = (3, 4)\<rparr>"
              and pself = "\<lparr>PageControlWidget.found_results = []\<rparr>"
              and isVisible = True]
    by (simp add: restore_example_def wanted)
  have silent_key: "\<not> delegates_or_emits
      (snd (keyPressEvent restore_example toolkit_empty_line widget_example 0))"
    using callbacks_delegate_or_emit
            [where rk = restore_example and tk = toolkit_empty_line and self = widget_example
              and kev = 0 and sev = "\<lparr>spontaneous = False\<rparr>"
              and fev = "\<lparr>gotFocus = True\<rparr>" and mev = "\<lparr>pos = (3, 4)\<rparr>"
              and pself = "\<lparr>PageControlWidget.found_results = []\<rparr>"
              and isVisible = True]
    by (simp add: restore_example_def unwanted situation)
  from other_key help_key silent_key trace show ?thesis
    by simp
qed

end
